theory Spec2Isabelle
  imports Main "HOL-Library.Word"
begin

section \<open>The book service: data model\<close>

text \<open>
  The service keeps one process-wide map from identifiers to books and serves six
  handlers over it. Go's \<open>int\<close> is the 64-bit two's complement integer of the usual
  targets: arithmetic wraps, comparisons are signed (read through \<open>sint\<close>).
\<close>

type_synonym go_int = "64 word"

record Book =
  ID :: string
  Title :: string
  Author :: string
  Year :: go_int

text \<open>The zero value of the struct, which Go's map index yields for a missing key.\<close>

definition zeroBook :: Book where
  "zeroBook = \<lparr>ID = [], Title = [], Author = [], Year = 0\<rparr>"

type_synonym store = "string \<rightharpoonup> Book"

definition index :: "store \<Rightarrow> string \<Rightarrow> Book" where
  "index st k = (case st k of None \<Rightarrow> zeroBook | Some b \<Rightarrow> b)"

text \<open>
  What a handler reads from the request context: the path parameter \<open>id\<close>, the query
  arguments, and the outcome of \<open>BodyParser\<close> (\<open>None\<close> when it returns an error, the
  decoded struct otherwise; the decoded struct may carry any \<open>id\<close> the client sent).
\<close>

record Ctx =
  Params_id :: string
  QueryArgs :: "string \<rightharpoonup> string"
  Body :: "Book option"

text \<open>\<open>c.Query(key, default)\<close>: the default stands in for a missing or empty argument.\<close>

definition Query :: "Ctx \<Rightarrow> string \<Rightarrow> string \<Rightarrow> string" where
  "Query c key dflt =
     (case QueryArgs c key of
        None \<Rightarrow> dflt
      | Some v \<Rightarrow> if v = [] then dflt else v)"

text \<open>
  A handler returns either an error (a \<open>fiber.Error\<close> with its status code and
  message, or a run-time panic, which the recover middleware turns into an error) or
  the response it wrote.
\<close>

datatype error =
    FiberError (Code: nat) (Message: string)
  | SlicePanic

datatype payload =
    BookJSON Book
  | ListJSON (data: "Book list") (page: go_int) (limit: go_int) (total: go_int)
  | NoContent

datatype response = Response (status: nat) (content: payload)

type_synonym result = "error + response"

section \<open>Library functions the handlers call\<close>

text \<open>
  \<open>strconv.Atoi\<close> for a 64-bit \<open>int\<close>, with the functions it is built from. The
  error is \<open>None\<close> for \<open>nil\<close>.
\<close>

datatype num_error = ErrSyntax | ErrRange

definition isDigit :: "char \<Rightarrow> bool" where
  "isDigit ch = (48 \<le> (of_char ch :: nat) \<and> (of_char ch :: nat) \<le> 57)"

text \<open>
  The loop of \<open>ParseUint(s, 10, 64)\<close> over the bytes of \<open>s\<close>, \<open>n\<close> being the value
  read so far. A byte that is no decimal digit ends it with a syntax error. A digit
  that would take the value past \<open>2^64 - 1\<close> ends it at once with that bound and a
  range error, whatever follows.
\<close>

fun parseUintLoop :: "string \<Rightarrow> int \<Rightarrow> int \<times> num_error option" where
  "parseUintLoop [] n = (n, None)"
| "parseUintLoop (c # s) n =
     (if \<not> isDigit c then (0, Some ErrSyntax)
      else if (2 ^ 64 - 1) div 10 + 1 \<le> n then (2 ^ 64 - 1, Some ErrRange)
      else if 2 ^ 64 - 1 < n * 10 + (of_char c - 48) then (2 ^ 64 - 1, Some ErrRange)
      else parseUintLoop s (n * 10 + (of_char c - 48)))"

definition ParseUint :: "string \<Rightarrow> int \<times> num_error option" where
  "ParseUint s = (if s = [] then (0, Some ErrSyntax) else parseUintLoop s 0)"

text \<open>\<open>ParseInt(s, 10, 0)\<close>: the sign is picked off, the rest is read unsigned.\<close>

definition ParseInt :: "string \<Rightarrow> go_int \<times> num_error option" where
  "ParseInt s =
     (if s = [] then (0, Some ErrSyntax)
      else
        (let neg = (hd s = CHR ''-'');
             s' = (if hd s = CHR ''+'' \<or> hd s = CHR ''-'' then tl s else s);
             un = fst (ParseUint s');
             err = snd (ParseUint s')
         in if err = Some ErrSyntax then (0, err)
            else if \<not> neg \<and> 2 ^ 63 \<le> un then (2 ^ 63 - 1, Some ErrRange)
            else if neg \<and> 2 ^ 63 < un then (- (2 ^ 63), Some ErrRange)
            else (word_of_int (if neg then - un else un), None)))"

text \<open>The digits of the fast path of \<open>Atoi\<close>, which cannot overflow.\<close>

fun atoiDigits :: "string \<Rightarrow> int \<Rightarrow> int option" where
  "atoiDigits [] n = Some n"
| "atoiDigits (ch # s) n =
     (if isDigit ch then atoiDigits s (n * 10 + (of_char ch - 48)) else None)"

text \<open>
  \<open>Atoi\<close> reads a string of 1 to 18 bytes itself and hands every other string to
  \<open>ParseInt\<close>.
\<close>

definition Atoi :: "string \<Rightarrow> go_int \<times> num_error option" where
  "Atoi s =
     (if 0 < length s \<and> length s < 19 then
        (let s' = (if hd s = CHR ''-'' \<or> hd s = CHR ''+'' then tl s else s)
         in if s' = [] then (0, Some ErrSyntax)
            else case atoiDigits s' 0 of
                   None \<Rightarrow> (0, Some ErrSyntax)
                 | Some n \<Rightarrow> (word_of_int (if hd s = CHR ''-'' then - n else n), None))
      else ParseInt s)"

text \<open>\<open>len(xs)\<close> as an \<open>int\<close>.\<close>

definition len :: "'a list \<Rightarrow> go_int" where
  "len xs = word_of_nat (length xs)"

text \<open>
  The slice expression \<open>xs[lo:hi]\<close> panics unless \<open>0 \<le> lo \<le> hi \<le> cap(xs)\<close>. The
  only slice taken here was made with capacity \<open>len(store)\<close> and filled to it, so its
  capacity is its length.
\<close>

definition slice :: "'a list \<Rightarrow> go_int \<Rightarrow> go_int \<Rightarrow> error + 'a list" where
  "slice xs lo hi =
     (if 0 \<le> sint lo \<and> sint lo \<le> sint hi \<and> sint hi \<le> sint (len xs)
      then Inr (take (nat (sint hi) - nat (sint lo)) (drop (nat (sint lo)) xs))
      else Inl SlicePanic)"

section \<open>Validation\<close>

text \<open>The returned error is its message; \<open>None\<close> is \<open>nil\<close>.\<close>

definition validateBookPayload :: "Book \<Rightarrow> string option" where
  "validateBookPayload b =
     (if Title b = [] then Some ''title is required''
      else if Author b = [] then Some ''author is required''
      else None)"

section \<open>Handlers\<close>

text \<open>
  Each handler is one step on the store. The read-only handlers return their result;
  the others return the store they leave and their result. The order in which
  \<open>range store\<close> visits the keys is not fixed by Go, so \<open>getAllBooks\<close> takes it as an
  argument: \<open>order\<close> lists the keys in the order of the visit.
\<close>

definition snapshot :: "store \<Rightarrow> string list \<Rightarrow> Book list" where
  "snapshot st order = List.map_filter st order"

definition getAllBooks :: "store \<Rightarrow> string list \<Rightarrow> Ctx \<Rightarrow> result" where
  "getAllBooks st order c =
     (let page = fst (Atoi (Query c ''page'' ''1''));
          limit = fst (Atoi (Query c ''limit'' ''50''));
          page = (if sint page < 1 then 1 else page);
          limit = (if sint limit < 1 then 50 else limit);
          books = snapshot st order;
          start = (page - 1) * limit;
          start = (if sint (len books) < sint start then len books else start);
          end = start + limit;
          end = (if sint (len books) < sint end then len books else end)
      in case slice books start end of
           Inl e \<Rightarrow> Inl e
         | Inr paged \<Rightarrow> Inr (Response 200 (ListJSON paged page limit (len books))))"

definition getBookByID :: "store \<Rightarrow> Ctx \<Rightarrow> result" where
  "getBookByID st c =
     (let id = Params_id c
      in case st id of
           None \<Rightarrow> Inl (FiberError 404 ''book not found'')
         | Some b \<Rightarrow> Inr (Response 200 (BookJSON b)))"

text \<open>\<open>new_id\<close> is the string of the identifier that \<open>uuid.New()\<close> draws.\<close>

definition createBook :: "store \<Rightarrow> Ctx \<Rightarrow> string \<Rightarrow> store \<times> result" where
  "createBook st c new_id =
     (case Body c of
        None \<Rightarrow> (st, Inl (FiberError 400 ''invalid JSON body''))
      | Some payload \<Rightarrow>
          (case validateBookPayload payload of
             Some msg \<Rightarrow> (st, Inl (FiberError 400 msg))
           | None \<Rightarrow>
               (let payload = payload\<lparr>ID := new_id\<rparr>
                in (st(ID payload \<mapsto> payload), Inr (Response 201 (BookJSON payload))))))"

text \<open>
  \<open>updateBook\<close> takes the lock twice: shared for the existence check, then, after
  decoding the body, exclusive for the merge and the write. \<open>updateBook_locked\<close> is
  the second section. A handler running alone passes it the store it has just checked.
\<close>

definition updateBook_locked :: "store \<Rightarrow> string \<Rightarrow> Book \<Rightarrow> store \<times> result" where
  "updateBook_locked st key payload =
     (let existing = index st key;
          existing = (if Title payload \<noteq> [] then existing\<lparr>Title := Title payload\<rparr>
                      else existing);
          existing = (if Author payload \<noteq> [] then existing\<lparr>Author := Author payload\<rparr>
                      else existing);
          existing = (if Year payload \<noteq> 0 then existing\<lparr>Year := Year payload\<rparr>
                      else existing)
      in (st(key \<mapsto> existing), Inr (Response 200 (BookJSON existing))))"

definition updateBook :: "store \<Rightarrow> Ctx \<Rightarrow> store \<times> result" where
  "updateBook st c =
     (let id = Params_id c
      in case st id of
           None \<Rightarrow> (st, Inl (FiberError 404 ''book not found''))
         | Some _ \<Rightarrow>
             (case Body c of
                None \<Rightarrow> (st, Inl (FiberError 400 ''invalid JSON body''))
              | Some payload \<Rightarrow> updateBook_locked st id payload))"

text \<open>
  Between the two sections other handlers may be served. \<open>updateBook_sections\<close> is
  the handler with the store that its existence check reads, \<open>st\<close>, and the store
  that it finds when it takes the lock for the write, \<open>st'\<close>; the store it leaves
  is the second one, written or not.
\<close>

definition updateBook_sections :: "store \<Rightarrow> store \<Rightarrow> Ctx \<Rightarrow> store \<times> result" where
  "updateBook_sections st st' c =
     (let id = Params_id c
      in case st id of
           None \<Rightarrow> (st', Inl (FiberError 404 ''book not found''))
         | Some _ \<Rightarrow>
             (case Body c of
                None \<Rightarrow> (st', Inl (FiberError 400 ''invalid JSON body''))
              | Some payload \<Rightarrow> updateBook_locked st' id payload))"

definition replaceBook :: "store \<Rightarrow> Ctx \<Rightarrow> store \<times> result" where
  "replaceBook st c =
     (let id = Params_id c
      in case Body c of
           None \<Rightarrow> (st, Inl (FiberError 400 ''invalid JSON body''))
         | Some payload \<Rightarrow>
             (case validateBookPayload payload of
                Some msg \<Rightarrow> (st, Inl (FiberError 400 msg))
              | None \<Rightarrow>
                  (let payload = payload\<lparr>ID := id\<rparr>
                   in case st id of
                        None \<Rightarrow> (st, Inl (FiberError 404 ''book not found''))
                      | Some _ \<Rightarrow>
                          (st(id \<mapsto> payload), Inr (Response 200 (BookJSON payload))))))"

definition deleteBook :: "store \<Rightarrow> Ctx \<Rightarrow> store \<times> result" where
  "deleteBook st c =
     (let id = Params_id c
      in case st id of
           None \<Rightarrow> (st, Inl (FiberError 404 ''book not found''))
         | Some _ \<Rightarrow> (st(id := None), Inr (Response 204 NoContent)))"

text \<open>\<open>seedData\<close> stores two books under two freshly drawn identifiers.\<close>

definition seedData :: "store \<Rightarrow> string \<Rightarrow> string \<Rightarrow> store" where
  "seedData st id1 id2 =
     (let b1 = \<lparr>ID = id1, Title = ''Clean Architecture'', Author = ''Robert C. Martin'',
                Year = 2017\<rparr>;
          b2 = \<lparr>ID = id2, Title = ''The Go Programming Language'',
                Author = ''Alan A. A. Donovan'', Year = 2015\<rparr>
      in (st(ID b1 \<mapsto> b1))(ID b2 \<mapsto> b2))"

section \<open>Example data\<close>

text \<open>The store right after start-up, one order of visiting it, and a list request.\<close>

definition seeded :: store where
  "seeded = seedData Map.empty ''id-1'' ''id-2''"

definition seeded_order :: "string list" where
  "seeded_order = [''id-1'', ''id-2'']"

definition list_request :: "string \<Rightarrow> string \<Rightarrow> Ctx" where
  "list_request pg lm =
     \<lparr>Params_id = [], QueryArgs = [''page'' \<mapsto> pg, ''limit'' \<mapsto> lm], Body = None\<rparr>"

section \<open>The store invariant\<close>

definition store_inv :: "store \<Rightarrow> bool" where
  "store_inv st =
     (\<forall>k b. st k = Some b \<longrightarrow> ID b = k \<and> ID b \<noteq> [] \<and> Title b \<noteq> [] \<and> Author b \<noteq> [])"

lemma store_invD:
  assumes "store_inv st" and "st k = Some b"
  shows "ID b = k \<and> k \<noteq> [] \<and> Title b \<noteq> [] \<and> Author b \<noteq> []"
proof -
  have "ID b = k \<and> ID b \<noteq> [] \<and> Title b \<noteq> [] \<and> Author b \<noteq> []"
    using assms unfolding store_inv_def by blast
  then show ?thesis by auto
qed

section \<open>Signed 64-bit arithmetic without overflow\<close>

lemma sint_upper: "sint (w :: go_int) < 2 ^ 63"
  using sint_lt [of w] by simp

lemma sint_len: "length xs < 2 ^ 63 \<Longrightarrow> sint (len xs) = int (length xs)"
proof -
  assume a: "length xs < 2 ^ 63"
  have "len xs = (word_of_int (int (length xs)) :: go_int)"
    unfolding len_def by simp
  then have "sint (len xs) = signed_take_bit 63 (int (length xs))"
    by (simp only: sint_sbintrunc') simp
  also have "\<dots> = int (length xs)"
    using a by (intro signed_take_bit_int_eq_self) auto
  finally show ?thesis .
qed

lemma sint_pred: "1 \<le> sint (p :: go_int) \<Longrightarrow> sint (p - 1) = sint p - 1"
proof -
  assume a: "1 \<le> sint p"
  have "sint (p - 1) = signed_take_bit 63 (sint p - 1)"
    by (simp add: sint_word_diff)
  also have "\<dots> = sint p - 1"
    using a sint_upper [of p] by (intro signed_take_bit_int_eq_self) auto
  finally show ?thesis .
qed

lemma sint_mult_in_range:
  "0 \<le> sint (a :: go_int) * sint (b :: go_int) \<Longrightarrow> sint a * sint b < 2 ^ 63 \<Longrightarrow>
   sint (a * b) = sint a * sint b"
  by (simp add: sint_word_mult signed_take_bit_int_eq_self)

lemma sint_add_in_range:
  "0 \<le> sint (a :: go_int) + sint (b :: go_int) \<Longrightarrow> sint a + sint b < 2 ^ 63 \<Longrightarrow>
   sint (a + b) = sint a + sint b"
  by (simp add: sint_word_add signed_take_bit_int_eq_self)

section \<open>Pagination\<close>

text \<open>Clamping both ends of a window to the list and cutting it out is \<open>take\<close> after \<open>drop\<close>.\<close>

lemma take_drop_window:
  assumes "0 \<le> s" "0 \<le> l"
  shows "take (nat (min (min s (int (length xs)) + l) (int (length xs)))
                - nat (min s (int (length xs))))
           (drop (nat (min s (int (length xs)))) xs)
         = take (nat l) (drop (nat s) xs)"
proof (cases "s \<le> int (length xs)")
  case inside: True
  then have m: "min s (int (length xs)) = s" by simp
  show ?thesis
  proof (cases "s + l \<le> int (length xs)")
    case True
    then have "nat (min (s + l) (int (length xs))) - nat s = nat l"
      using assms by (simp add: min_def nat_diff_distrib)
    then show ?thesis by (simp add: m)
  next
    case False
    then have "nat (min (s + l) (int (length xs))) - nat s = length xs - nat s"
      by (simp add: min_def)
    moreover have "length xs - nat s \<le> nat l"
      using False assms by linarith
    ultimately show ?thesis by (simp add: m)
  qed
next
  case False
  then show ?thesis by simp
qed

text \<open>
  As long as the product of the effective page and limit stays below \<open>2^63\<close>, the
  handler answers 200 with the window \<open>[(page-1)*limit, (page-1)*limit+limit)\<close> of the
  snapshot, cut at its end, and echoes the effective page and limit.
\<close>

lemma getAllBooks_in_range:
  assumes p: "p = (let v = fst (Atoi (Query c ''page'' ''1'')) in if sint v < 1 then 1 else v)"
    and l: "l = (let v = fst (Atoi (Query c ''limit'' ''50'')) in if sint v < 1 then 50 else v)"
    and pl: "sint p * sint l < 2 ^ 63"
    and n: "length (snapshot st order) < 2 ^ 63"
  shows "getAllBooks st order c =
         Inr (Response 200
               (ListJSON (take (nat (sint l))
                            (drop (nat ((sint p - 1) * sint l)) (snapshot st order)))
                         p l (len (snapshot st order))))"
proof -
  define books where "books = snapshot st order"
  define start where
    "start = (if sint (len books) < sint ((p - 1) * l) then len books else (p - 1) * l)"
  define stop where
    "stop = (if sint (len books) < sint (start + l) then len books else start + l)"
  have unfold: "getAllBooks st order c =
      (case slice books start stop of
         Inl e \<Rightarrow> Inl e
       | Inr paged \<Rightarrow> Inr (Response 200 (ListJSON paged p l (len books))))"
    unfolding getAllBooks_def p l books_def start_def stop_def Let_def ..
  have p1: "1 \<le> sint p" unfolding p Let_def by simp
  have l1: "1 \<le> sint l" unfolding l Let_def by simp
  have nb: "sint (len books) = int (length books)"
    using n unfolding books_def by (rule sint_len)
  have prod: "(sint p - 1) * sint l = sint p * sint l - sint l"
    by (simp add: algebra_simps)
  have s0_nonneg: "0 \<le> (sint p - 1) * sint l" using p1 l1 by simp
  have s0_lt: "(sint p - 1) * sint l < 2 ^ 63" using pl l1 unfolding prod by linarith
  have s0: "sint ((p - 1) * l) = (sint p - 1) * sint l"
    using sint_mult_in_range [of "p - 1" l] s0_nonneg s0_lt p1 by (simp add: sint_pred)
  have start: "sint start = min ((sint p - 1) * sint l) (int (length books))"
    unfolding start_def using nb s0 by (simp add: min_def)
  have sum_lt: "sint start + sint l < 2 ^ 63"
    using pl unfolding start prod by linarith
  have sum_nonneg: "0 \<le> sint start + sint l"
    using s0_nonneg l1 unfolding start by linarith
  have e0: "sint (start + l) = sint start + sint l"
    using sum_nonneg sum_lt by (rule sint_add_in_range)
  have stop: "sint stop = min (sint start + sint l) (int (length books))"
    unfolding stop_def using nb e0 by (simp add: min_def)
  have ok: "0 \<le> sint start \<and> sint start \<le> sint stop \<and> sint stop \<le> sint (len books)"
    using s0_nonneg l1 unfolding stop start nb by simp
  have "slice books start stop =
        Inr (take (nat (sint stop) - nat (sint start)) (drop (nat (sint start)) books))"
    using ok by (simp add: slice_def)
  also have "take (nat (sint stop) - nat (sint start)) (drop (nat (sint start)) books) =
        take (nat (sint l)) (drop (nat ((sint p - 1) * sint l)) books)"
    unfolding stop start using s0_nonneg l1 by (intro take_drop_window) simp_all
  finally show ?thesis
    unfolding unfold books_def by simp
qed

text \<open>
  When \<open>order\<close> visits every key of the store once, the snapshot holds exactly the
  stored books, so its length is the number of books in the store.
\<close>

lemma snapshot_length:
  assumes "distinct order" "set order = dom st"
  shows "length (snapshot st order) = card (dom st)"
proof -
  have "filter (\<lambda>k. st k \<noteq> None) order = order"
    using assms(2) by (auto simp: filter_id_conv)
  then have "length (snapshot st order) = length order"
    by (simp add: snapshot_def List.map_filter_def)
  also have "\<dots> = card (dom st)"
    using assms by (metis distinct_card)
  finally show ?thesis .
qed

lemma snapshot_set:
  assumes "set order = dom st"
  shows "set (snapshot st order) = ran st"
proof -
  have "set (snapshot st order) = (\<lambda>k. the (st k)) ` dom st"
    using assms by (auto simp: snapshot_def List.map_filter_def)
  also have "\<dots> = ran st"
    by (force simp: ran_def dom_def)
  finally show ?thesis .
qed

lemma Atoi_defaults: "Atoi ''1'' = (1, None)" "Atoi ''50'' = (50, None)"
  by (simp_all add: Atoi_def isDigit_def)

text \<open>
  What \<open>Atoi\<close> returns with an error: 0 for a string that is no number, the nearest
  bound for a number out of range, also when the digits that overflow are followed by
  something else.
\<close>

lemma Atoi_errors:
  "Atoi ''x'' = (0, Some ErrSyntax)"
  "Atoi [] = (0, Some ErrSyntax)"
  "Atoi ''-'' = (0, Some ErrSyntax)"
  "Atoi ''9223372036854775808x'' = (0, Some ErrSyntax)"
  "Atoi ''9223372036854775807'' = (9223372036854775807, None)"
  "Atoi ''9223372036854775808'' = (9223372036854775807, Some ErrRange)"
  "Atoi ''-9223372036854775809'' = (- 9223372036854775808, Some ErrRange)"
  "Atoi ''99999999999999999999x'' = (9223372036854775807, Some ErrRange)"
  by (simp_all add: Atoi_def ParseInt_def ParseUint_def isDigit_def)

lemma seeded_snapshot:
  "snapshot seeded seeded_order =
     [\<lparr>ID = ''id-1'', Title = ''Clean Architecture'', Author = ''Robert C. Martin'',
        Year = 2017\<rparr>,
      \<lparr>ID = ''id-2'', Title = ''The Go Programming Language'',
        Author = ''Alan A. A. Donovan'', Year = 2015\<rparr>]"
  by (simp add: snapshot_def seeded_def seeded_order_def seedData_def List.map_filter_def)

section \<open>Listing: page and limit\<close>

text \<open>
  C1, as the code has it. The query argument \<open>page\<close> defaults to 1 and \<open>limit\<close> to
  50, for a missing argument as for an empty one. For every request, a parsed page
  below 1 makes the effective page 1, and a parsed limit below 1 makes the effective
  limit 50, the default again, not 1. The parsed value is what \<open>Atoi\<close> returns, its
  error dropped. Whenever the product of the effective page and the effective limit
  is below \<open>2^63\<close>, the handler does not fail: it answers 200 with the window of the
  snapshot that the effective page and limit give, and echoes both.
\<close>

theorem list_page_limit_defaults:
  assumes "parsed_page = fst (Atoi (Query c ''page'' ''1''))"
    and "parsed_limit = fst (Atoi (Query c ''limit'' ''50''))"
    and "p = (if sint parsed_page < 1 then 1 else parsed_page)"
    and "l = (if sint parsed_limit < 1 then 50 else parsed_limit)"
    and "sint p * sint l < 2 ^ 63"
    and "length (snapshot st order) < 2 ^ 63"
  shows "(QueryArgs c ''page'' = None \<or> QueryArgs c ''page'' = Some [] \<longrightarrow> parsed_page = 1) \<and>
         (QueryArgs c ''limit'' = None \<or> QueryArgs c ''limit'' = Some [] \<longrightarrow>
            parsed_limit = 50) \<and>
         getAllBooks st order c =
           Inr (Response 200
                 (ListJSON (take (nat (sint l))
                              (drop (nat ((sint p - 1) * sint l)) (snapshot st order)))
                           p l (len (snapshot st order))))"
proof (intro conjI impI)
  assume "QueryArgs c ''page'' = None \<or> QueryArgs c ''page'' = Some []"
  then show "parsed_page = 1"
    using assms(1) by (auto simp: Query_def Atoi_defaults)
next
  assume "QueryArgs c ''limit'' = None \<or> QueryArgs c ''limit'' = Some []"
  then show "parsed_limit = 50"
    using assms(2) by (auto simp: Query_def Atoi_defaults)
next
  have "p = (let v = fst (Atoi (Query c ''page'' ''1'')) in if sint v < 1 then 1 else v)"
    using assms(1,3) by (simp add: Let_def)
  moreover
  have "l = (let v = fst (Atoi (Query c ''limit'' ''50'')) in if sint v < 1 then 50 else v)"
    using assms(2,4) by (simp add: Let_def)
  ultimately show "getAllBooks st order c =
      Inr (Response 200
            (ListJSON (take (nat (sint l))
                         (drop (nat ((sint p - 1) * sint l)) (snapshot st order)))
                      p l (len (snapshot st order))))"
    using assms(5,6) by (rule getAllBooks_in_range)
qed

theorem list_page_limit_defaults_witness:
  "QueryArgs \<lparr>Params_id = [], QueryArgs = Map.empty, Body = None\<rparr> ''page'' = None \<and>
   QueryArgs \<lparr>Params_id = [], QueryArgs = Map.empty, Body = None\<rparr> ''limit'' = None \<and>
   fst (Atoi (Query \<lparr>Params_id = [], QueryArgs = Map.empty, Body = None\<rparr> ''page'' ''1'')) = 1 \<and>
   fst (Atoi (Query \<lparr>Params_id = [], QueryArgs = Map.empty, Body = None\<rparr> ''limit'' ''50'')) = 50 \<and>
   getAllBooks seeded seeded_order \<lparr>Params_id = [], QueryArgs = Map.empty, Body = None\<rparr> =
     Inr (Response 200 (ListJSON (snapshot seeded seeded_order) 1 50 2)) \<and>
   fst (Atoi (Query (list_request ''-3'' ''0'') ''page'' ''1'')) = - 3 \<and>
   fst (Atoi (Query (list_request ''-3'' ''0'') ''limit'' ''50'')) = 0 \<and>
   sint (- 3 :: go_int) < 1 \<and> sint (0 :: go_int) < 1 \<and>
   sint (1 :: go_int) * sint (50 :: go_int) < 2 ^ 63 \<and>
   length (snapshot seeded seeded_order) < 2 ^ 63 \<and>
   getAllBooks seeded seeded_order (list_request ''-3'' ''0'') =
     Inr (Response 200 (ListJSON (snapshot seeded seeded_order) 1 50 2))"
  using list_page_limit_defaults
    [where c = "\<lparr>Params_id = [], QueryArgs = Map.empty, Body = None\<rparr>"
       and parsed_page = 1 and parsed_limit = 50 and p = 1 and l = 50
       and st = seeded and order = seeded_order]
    list_page_limit_defaults
    [where c = "list_request ''-3'' ''0''"
       and parsed_page = "- 3" and parsed_limit = 0 and p = 1 and l = 50
       and st = seeded and order = seeded_order]
  by (simp add: Query_def Atoi_defaults seeded_snapshot len_def list_request_def Atoi_def
      isDigit_def)

text \<open>
  C1 as the specification words it gives 1 for a limit below 1. With \<open>limit=0\<close> on
  the seeded store the handler uses 50: it echoes 50 and returns both books.
\<close>

theorem list_limit_floor_counterexample:
  "sint (fst (Atoi (Query (list_request [] ''0'') ''limit'' ''50''))) < 1 \<and>
   getAllBooks seeded seeded_order (list_request [] ''0'') =
     Inr (Response 200
           (ListJSON
              [\<lparr>ID = ''id-1'', Title = ''Clean Architecture'', Author = ''Robert C. Martin'',
                 Year = 2017\<rparr>,
               \<lparr>ID = ''id-2'', Title = ''The Go Programming Language'',
                 Author = ''Alan A. A. Donovan'', Year = 2015\<rparr>]
              1 50 2)) \<and>
   (50 :: go_int) \<noteq> 1"
  by (simp add: getAllBooks_def list_request_def Query_def Atoi_def ParseInt_def ParseUint_def
      isDigit_def slice_def
      len_def seeded_snapshot)

text \<open>
  C2 at \<open>page=4611686018427387905&limit=2\<close>. The product \<open>(page-1)*limit\<close> is
  \<open>2^63\<close> and wraps to \<open>-2^63\<close>; neither comparison with the length catches a
  negative bound, and the slice expression panics. With \<open>limit=4\<close> the product wraps
  to 0 and the handler returns the first books instead of an empty page.
\<close>

theorem list_overflow_panics:
  "sint (4611686018427387905 :: go_int) \<ge> 1 \<and>
   getAllBooks seeded seeded_order (list_request ''4611686018427387905'' ''2'') =
     Inl SlicePanic \<and>
   getAllBooks seeded seeded_order (list_request ''4611686018427387905'' ''4'') =
     Inr (Response 200
           (ListJSON
              [\<lparr>ID = ''id-1'', Title = ''Clean Architecture'', Author = ''Robert C. Martin'',
                 Year = 2017\<rparr>,
               \<lparr>ID = ''id-2'', Title = ''The Go Programming Language'',
                 Author = ''Alan A. A. Donovan'', Year = 2015\<rparr>]
              4611686018427387905 4 2))"
  by (simp add: getAllBooks_def list_request_def Query_def Atoi_def ParseInt_def ParseUint_def
      isDigit_def slice_def
      len_def seeded_snapshot)

section \<open>Validation on create and replace\<close>

text \<open>
  C3. Validation reports an error exactly when the title or the author is empty, and
  the error carries a message naming the missing field. Create and Replace answer such
  a body with a 400 carrying that message and leave the store as it was. PartialUpdate
  does not validate: on an existing id every decoded body is accepted with a 200.
\<close>

theorem validation_on_create_and_replace:
  assumes "Body c = Some b"
  shows "((validateBookPayload b \<noteq> None) = (Title b = [] \<or> Author b = [])) \<and>
         (Title b = [] \<longrightarrow> validateBookPayload b = Some ''title is required'') \<and>
         (Title b \<noteq> [] \<and> Author b = [] \<longrightarrow>
            validateBookPayload b = Some ''author is required'') \<and>
         (Title b = [] \<or> Author b = [] \<longrightarrow>
            (\<exists>msg. validateBookPayload b = Some msg \<and>
                   createBook st c new_id = (st, Inl (FiberError 400 msg)) \<and>
                   replaceBook st c = (st, Inl (FiberError 400 msg)))) \<and>
         (st (Params_id c) \<noteq> None \<longrightarrow>
            (\<exists>merged. snd (updateBook st c) = Inr (Response 200 (BookJSON merged))))"
  using assms
  by (auto simp: validateBookPayload_def createBook_def replaceBook_def updateBook_def updateBook_locked_def Let_def
      split: option.splits)

theorem validation_on_create_and_replace_witness:
  "Body \<lparr>Params_id = ''id-1'', QueryArgs = Map.empty,
         Body = Some \<lparr>ID = [], Title = [], Author = ''A'', Year = 0\<rparr>\<rparr>
     = Some \<lparr>ID = [], Title = [], Author = ''A'', Year = 0\<rparr> \<and>
   seeded ''id-1'' \<noteq> None \<and>
   createBook seeded
     \<lparr>Params_id = ''id-1'', QueryArgs = Map.empty,
      Body = Some \<lparr>ID = [], Title = [], Author = ''A'', Year = 0\<rparr>\<rparr> ''id-3''
     = (seeded, Inl (FiberError 400 ''title is required'')) \<and>
   replaceBook seeded
     \<lparr>Params_id = ''id-1'', QueryArgs = Map.empty,
      Body = Some \<lparr>ID = [], Title = [], Author = ''A'', Year = 0\<rparr>\<rparr>
     = (seeded, Inl (FiberError 400 ''title is required'')) \<and>
   (\<exists>merged. snd (updateBook seeded
     \<lparr>Params_id = ''id-1'', QueryArgs = Map.empty,
      Body = Some \<lparr>ID = [], Title = [], Author = ''A'', Year = 0\<rparr>\<rparr>)
     = Inr (Response 200 (BookJSON merged)))"
  using validation_on_create_and_replace
    [where c = "\<lparr>Params_id = ''id-1'', QueryArgs = Map.empty,
                 Body = Some \<lparr>ID = [], Title = [], Author = ''A'', Year = 0\<rparr>\<rparr>"
       and b = "\<lparr>ID = [], Title = [], Author = ''A'', Year = 0\<rparr>"
       and st = seeded and new_id = "''id-3''"]
  by (auto simp: seeded_def seedData_def)

section \<open>Partial update\<close>

text \<open>
  C4. On an existing id, PartialUpdate takes the title, the author and the year from
  the body where the body's value is non-empty (non-zero for the year) and keeps the
  stored value otherwise; the id stays, the merged book is stored under the same key
  and returned, and no other entry changes.
\<close>

theorem partial_update_merges:
  assumes "st (Params_id c) = Some old" and "Body c = Some p"
    and "merged = old\<lparr>Title := (if Title p \<noteq> [] then Title p else Title old),
                       Author := (if Author p \<noteq> [] then Author p else Author old),
                       Year := (if Year p \<noteq> 0 then Year p else Year old)\<rparr>"
  shows "updateBook st c = (st(Params_id c \<mapsto> merged), Inr (Response 200 (BookJSON merged))) \<and>
         ID merged = ID old"
  using assms by (simp add: updateBook_def updateBook_locked_def index_def Let_def)

theorem partial_update_merges_witness:
  "[''k'' \<mapsto> \<lparr>ID = ''k'', Title = ''A'', Author = ''B'', Year = 5\<rparr>] ''k''
     = Some \<lparr>ID = ''k'', Title = ''A'', Author = ''B'', Year = 5\<rparr> \<and>
   updateBook [''k'' \<mapsto> \<lparr>ID = ''k'', Title = ''A'', Author = ''B'', Year = 5\<rparr>]
     \<lparr>Params_id = ''k'', QueryArgs = Map.empty,
      Body = Some \<lparr>ID = [], Title = ''X'', Author = [], Year = 0\<rparr>\<rparr>
     = ([''k'' \<mapsto> \<lparr>ID = ''k'', Title = ''X'', Author = ''B'', Year = 5\<rparr>],
        Inr (Response 200 (BookJSON \<lparr>ID = ''k'', Title = ''X'', Author = ''B'', Year = 5\<rparr>)))"
  using partial_update_merges
    [where st = "[''k'' \<mapsto> \<lparr>ID = ''k'', Title = ''A'', Author = ''B'', Year = 5\<rparr>]"
       and c = "\<lparr>Params_id = ''k'', QueryArgs = Map.empty,
                 Body = Some \<lparr>ID = [], Title = ''X'', Author = [], Year = 0\<rparr>\<rparr>"
       and old = "\<lparr>ID = ''k'', Title = ''A'', Author = ''B'', Year = 5\<rparr>"
       and p = "\<lparr>ID = [], Title = ''X'', Author = [], Year = 0\<rparr>"
       and merged = "\<lparr>ID = ''k'', Title = ''X'', Author = ''B'', Year = 5\<rparr>"]
  by simp

section \<open>The store invariant and the two sections of PartialUpdate\<close>

text \<open>
  Every stored book should have a non-empty id, title and author and sit under the key
  equal to its id. Seeding the empty store establishes this, and the handlers keep it
  as long as each runs from its first line to its last with no other handler served
  in between. The identifiers drawn by \<open>uuid.New()\<close> are 36-character strings, so
  the generated ids are taken to be non-empty.
\<close>

lemma store_inv_sequential:
  "(id1 \<noteq> [] \<and> id2 \<noteq> [] \<longrightarrow> store_inv (seedData Map.empty id1 id2)) \<and>
   (store_inv st \<longrightarrow>
      (new_id \<noteq> [] \<longrightarrow> store_inv (fst (createBook st c new_id))) \<and>
      store_inv (fst (updateBook st c)) \<and>
      store_inv (fst (replaceBook st c)) \<and>
      store_inv (fst (deleteBook st c)))"
proof (intro conjI impI)
  assume "id1 \<noteq> [] \<and> id2 \<noteq> []"
  then show "store_inv (seedData Map.empty id1 id2)"
    by (simp add: store_inv_def seedData_def)
next
  assume "store_inv st" and "new_id \<noteq> []"
  then show "store_inv (fst (createBook st c new_id))"
    by (auto simp: store_inv_def createBook_def validateBookPayload_def Let_def
        split: option.splits if_splits)
next
  assume inv: "store_inv st"
  show "store_inv (fst (updateBook st c))"
  proof (cases "st (Params_id c)")
    case None
    then show ?thesis using inv by (simp add: updateBook_def updateBook_locked_def)
  next
    case (Some old)
    then have old: "ID old = Params_id c" "ID old \<noteq> []" "Title old \<noteq> []" "Author old \<noteq> []"
      using store_invD [OF inv] by auto
    show ?thesis
    proof (cases "Body c")
      case None
      then show ?thesis using inv Some by (simp add: updateBook_def updateBook_locked_def)
    next
      case (Some p)
      then show ?thesis
        using inv old \<open>st (Params_id c) = Some old\<close>
        by (auto simp: store_inv_def updateBook_def updateBook_locked_def index_def Let_def)
    qed
  qed
next
  assume inv: "store_inv st"
  show "store_inv (fst (replaceBook st c))"
  proof (cases "st (Params_id c)")
    case None
    then show ?thesis
      using inv by (simp add: replaceBook_def Let_def split: option.splits)
  next
    case (Some old)
    then have "Params_id c \<noteq> []"
      using store_invD [OF inv] by blast
    then show ?thesis
      using inv Some
      by (auto simp: store_inv_def replaceBook_def validateBookPayload_def Let_def
          split: option.splits if_splits)
  qed
next
  assume "store_inv st"
  then show "store_inv (fst (deleteBook st c))"
    by (auto simp: store_inv_def deleteBook_def Let_def split: option.splits if_splits)
qed

lemma store_inv_seeded: "store_inv seeded"
  using store_inv_sequential [where ?id1.0 = "''id-1''" and ?id2.0 = "''id-2''"]
  by (simp add: seeded_def)

text \<open>With nothing served between its sections, \<open>updateBook_sections\<close> is \<open>updateBook\<close>.\<close>

lemma updateBook_sections_alone: "updateBook_sections st st c = updateBook st c"
  by (simp add: updateBook_sections_def updateBook_def)

text \<open>
  \<open>replaceBook\<close> and \<open>deleteBook\<close> check and write under one lock; \<open>updateBook\<close>
  gives the lock up in between. Its write section on a store that no longer holds the
  id stores the zero book, merged with the body, under that id, and the invariant is
  gone.
\<close>

lemma updateBook_locked_on_missing_id:
  assumes "st key = None"
  shows "\<not> store_inv (fst (updateBook_locked st key payload))"
proof
  assume inv: "store_inv (fst (updateBook_locked st key payload))"
  obtain b where b: "fst (updateBook_locked st key payload) key = Some b" "ID b = []"
    using assms by (simp add: updateBook_locked_def index_def zeroBook_def Let_def)
  from store_invD [OF inv b(1)] b(2) show False by auto
qed

lemma updateBook_sections_after_delete:
  assumes "st (Params_id c) \<noteq> None" and "Body c = Some payload"
  shows "\<not> store_inv (fst (updateBook_sections st (fst (deleteBook st c)) c))"
proof -
  have gone: "fst (deleteBook st c) (Params_id c) = None"
    using assms(1) by (auto simp: deleteBook_def Let_def)
  have "updateBook_sections st (fst (deleteBook st c)) c =
        updateBook_locked (fst (deleteBook st c)) (Params_id c) payload"
    using assms by (auto simp: updateBook_sections_def Let_def)
  then show ?thesis
    using updateBook_locked_on_missing_id
      [where st = "fst (deleteBook st c)" and key = "Params_id c" and payload = payload]
      gone
    by simp
qed

text \<open>
  C5 on the seeded store, which satisfies the invariant: a PartialUpdate of \<open>id-1\<close>
  with the body \<open>{"title": "X"}\<close> passes its existence check, a Delete of \<open>id-1\<close>
  is served and answers 204, and the PartialUpdate then takes the lock for its write.
  It answers 200 and leaves under the key \<open>id-1\<close> a book whose id and author are
  empty.
\<close>

theorem partial_update_after_delete:
  "seeded ''id-1'' \<noteq> None \<and>
   deleteBook seeded \<lparr>Params_id = ''id-1'', QueryArgs = Map.empty, Body = None\<rparr>
     = (seeded(''id-1'' := None), Inr (Response 204 NoContent)) \<and>
   updateBook_sections seeded (seeded(''id-1'' := None))
     \<lparr>Params_id = ''id-1'', QueryArgs = Map.empty,
      Body = Some \<lparr>ID = [], Title = ''X'', Author = [], Year = 0\<rparr>\<rparr>
     = (seeded(''id-1'' \<mapsto> \<lparr>ID = [], Title = ''X'', Author = [], Year = 0\<rparr>),
        Inr (Response 200 (BookJSON \<lparr>ID = [], Title = ''X'', Author = [], Year = 0\<rparr>)))"
proof -
  have present: "seeded ''id-1'' \<noteq> None"
    by (simp add: seeded_def seedData_def)
  then show ?thesis
    by (auto simp: deleteBook_def updateBook_sections_def updateBook_locked_def index_def
        zeroBook_def Let_def)
qed

section \<open>Replace is idempotent\<close>

text \<open>
  C6. On an existing id and a valid body, Replace stores the body under the id, with
  the id written into it; doing it a second time answers the same and leaves the same
  store.
\<close>

theorem replace_idempotent:
  assumes "st (Params_id c) \<noteq> None" and "Body c = Some B" and "validateBookPayload B = None"
  shows "fst (replaceBook st c) = st(Params_id c \<mapsto> B\<lparr>ID := Params_id c\<rparr>) \<and>
         snd (replaceBook st c) = Inr (Response 200 (BookJSON (B\<lparr>ID := Params_id c\<rparr>))) \<and>
         fst (replaceBook (fst (replaceBook st c)) c) = fst (replaceBook st c) \<and>
         snd (replaceBook (fst (replaceBook st c)) c) = snd (replaceBook st c)"
  using assms by (auto simp: replaceBook_def Let_def)

theorem replace_idempotent_witness:
  "seeded ''id-1'' \<noteq> None \<and>
   validateBookPayload \<lparr>ID = ''x'', Title = ''T'', Author = ''A'', Year = 2020\<rparr> = None \<and>
   fst (replaceBook seeded
     \<lparr>Params_id = ''id-1'', QueryArgs = Map.empty,
      Body = Some \<lparr>ID = ''x'', Title = ''T'', Author = ''A'', Year = 2020\<rparr>\<rparr>)
     = seeded(''id-1'' \<mapsto> \<lparr>ID = ''id-1'', Title = ''T'', Author = ''A'', Year = 2020\<rparr>) \<and>
   fst (replaceBook
     (fst (replaceBook seeded
       \<lparr>Params_id = ''id-1'', QueryArgs = Map.empty,
        Body = Some \<lparr>ID = ''x'', Title = ''T'', Author = ''A'', Year = 2020\<rparr>\<rparr>))
     \<lparr>Params_id = ''id-1'', QueryArgs = Map.empty,
      Body = Some \<lparr>ID = ''x'', Title = ''T'', Author = ''A'', Year = 2020\<rparr>\<rparr>)
     = seeded(''id-1'' \<mapsto> \<lparr>ID = ''id-1'', Title = ''T'', Author = ''A'', Year = 2020\<rparr>)"
proof -
  have present: "seeded ''id-1'' \<noteq> None"
    by (simp add: seeded_def seedData_def)
  have valid: "validateBookPayload \<lparr>ID = ''x'', Title = ''T'', Author = ''A'', Year = 2020\<rparr> = None"
    by (simp add: validateBookPayload_def)
  show ?thesis
    using present valid
      replace_idempotent
        [where st = seeded
           and c = "\<lparr>Params_id = ''id-1'', QueryArgs = Map.empty,
                     Body = Some \<lparr>ID = ''x'', Title = ''T'', Author = ''A'', Year = 2020\<rparr>\<rparr>"
           and B = "\<lparr>ID = ''x'', Title = ''T'', Author = ''A'', Year = 2020\<rparr>"]
    by auto
qed

section \<open>Create then get\<close>

text \<open>
  C7. For a valid body \<open>B\<close>, Create answers 201 with a book that carries the freshly
  drawn id and the title, author and year of \<open>B\<close>, and a Get with the returned id on
  the store that Create leaves answers 200 with that same book.
\<close>

theorem create_then_get:
  assumes "Body c = Some B" and "validateBookPayload B = None"
    and "createBook st c new_id = (st', r)"
  shows "\<exists>b. r = Inr (Response 201 (BookJSON b)) \<and>
             getBookByID st' (c'\<lparr>Params_id := ID b\<rparr>) = Inr (Response 200 (BookJSON b)) \<and>
             ID b = new_id \<and> Title b = Title B \<and> Author b = Author B \<and> Year b = Year B"
  using assms by (auto simp: createBook_def getBookByID_def Let_def)

theorem create_then_get_witness:
  "validateBookPayload \<lparr>ID = [], Title = ''T'', Author = ''A'', Year = 2020\<rparr> = None \<and>
   createBook seeded
     \<lparr>Params_id = [], QueryArgs = Map.empty,
      Body = Some \<lparr>ID = [], Title = ''T'', Author = ''A'', Year = 2020\<rparr>\<rparr> ''id-3''
     = (seeded(''id-3'' \<mapsto> \<lparr>ID = ''id-3'', Title = ''T'', Author = ''A'', Year = 2020\<rparr>),
        Inr (Response 201 (BookJSON \<lparr>ID = ''id-3'', Title = ''T'', Author = ''A'', Year = 2020\<rparr>))) \<and>
   getBookByID
     (seeded(''id-3'' \<mapsto> \<lparr>ID = ''id-3'', Title = ''T'', Author = ''A'', Year = 2020\<rparr>))
     \<lparr>Params_id = ''id-3'', QueryArgs = Map.empty, Body = None\<rparr>
     = Inr (Response 200 (BookJSON \<lparr>ID = ''id-3'', Title = ''T'', Author = ''A'', Year = 2020\<rparr>))"
proof -
  have valid: "validateBookPayload \<lparr>ID = [], Title = ''T'', Author = ''A'', Year = 2020\<rparr> = None"
    by (simp add: validateBookPayload_def)
  have created: "createBook seeded
     \<lparr>Params_id = [], QueryArgs = Map.empty,
      Body = Some \<lparr>ID = [], Title = ''T'', Author = ''A'', Year = 2020\<rparr>\<rparr> ''id-3''
     = (seeded(''id-3'' \<mapsto> \<lparr>ID = ''id-3'', Title = ''T'', Author = ''A'', Year = 2020\<rparr>),
        Inr (Response 201 (BookJSON \<lparr>ID = ''id-3'', Title = ''T'', Author = ''A'', Year = 2020\<rparr>)))"
    by (simp add: createBook_def validateBookPayload_def Let_def)
  show ?thesis
    using valid created
      create_then_get
        [where c = "\<lparr>Params_id = [], QueryArgs = Map.empty,
                     Body = Some \<lparr>ID = [], Title = ''T'', Author = ''A'', Year = 2020\<rparr>\<rparr>"
           and B = "\<lparr>ID = [], Title = ''T'', Author = ''A'', Year = 2020\<rparr>"
           and st = seeded and new_id = "''id-3''"
           and c' = "\<lparr>Params_id = [], QueryArgs = Map.empty, Body = None\<rparr>",
         OF _ valid created]
    by simp
qed

section \<open>Delete then get\<close>

text \<open>
  C8. After a Delete that answers 204, a Get with the same id answers 404
  ``book not found'', and every other key of the store holds what it held before.
\<close>

theorem delete_then_get:
  assumes "deleteBook st c = (st', Inr (Response 204 NoContent))"
    and "Params_id c' = Params_id c"
  shows "getBookByID st' c' = Inl (FiberError 404 ''book not found'') \<and>
         (\<forall>k. k \<noteq> Params_id c \<longrightarrow> st' k = st k)"
  using assms by (auto simp: deleteBook_def getBookByID_def Let_def split: option.splits)

theorem delete_then_get_witness:
  "deleteBook seeded \<lparr>Params_id = ''id-1'', QueryArgs = Map.empty, Body = None\<rparr>
     = (seeded(''id-1'' := None), Inr (Response 204 NoContent)) \<and>
   getBookByID (seeded(''id-1'' := None))
     \<lparr>Params_id = ''id-1'', QueryArgs = Map.empty, Body = None\<rparr>
     = Inl (FiberError 404 ''book not found'') \<and>
   ''id-2'' \<noteq> ''id-1'' \<and>
   (seeded(''id-1'' := None)) ''id-2'' = seeded ''id-2'' \<and>
   seeded ''id-2'' \<noteq> None"
proof -
  have deleted: "deleteBook seeded \<lparr>Params_id = ''id-1'', QueryArgs = Map.empty, Body = None\<rparr>
     = (seeded(''id-1'' := None), Inr (Response 204 NoContent))"
    by (simp add: deleteBook_def seeded_def seedData_def Let_def)
  have kept: "seeded ''id-2'' \<noteq> None"
    by (simp add: seeded_def seedData_def)
  show ?thesis
    using deleted kept
      delete_then_get
        [where c' = "\<lparr>Params_id = ''id-1'', QueryArgs = Map.empty, Body = None\<rparr>",
         OF deleted]
    by simp
qed

section \<open>Which error comes first\<close>

text \<open>
  C9. On an id that is not in the store, Replace answers 400 when the body does not
  decode or does not validate (it reaches the 404 only with a valid body), while
  PartialUpdate answers 404 whatever the body is, decoded or not.
\<close>

theorem error_precedence:
  assumes "st (Params_id c) = None"
  shows "(Body c = None \<longrightarrow>
            snd (replaceBook st c) = Inl (FiberError 400 ''invalid JSON body'')) \<and>
         (\<forall>b msg. Body c = Some b \<and> validateBookPayload b = Some msg \<longrightarrow>
            snd (replaceBook st c) = Inl (FiberError 400 msg)) \<and>
         (\<forall>b. Body c = Some b \<and> validateBookPayload b = None \<longrightarrow>
            snd (replaceBook st c) = Inl (FiberError 404 ''book not found'')) \<and>
         snd (updateBook st c) = Inl (FiberError 404 ''book not found'')"
  using assms by (auto simp: replaceBook_def updateBook_def updateBook_locked_def Let_def)

theorem error_precedence_witness:
  "seeded ''nope'' = None \<and>
   snd (replaceBook seeded \<lparr>Params_id = ''nope'', QueryArgs = Map.empty, Body = None\<rparr>)
     = Inl (FiberError 400 ''invalid JSON body'') \<and>
   snd (updateBook seeded \<lparr>Params_id = ''nope'', QueryArgs = Map.empty, Body = None\<rparr>)
     = Inl (FiberError 404 ''book not found'') \<and>
   validateBookPayload \<lparr>ID = [], Title = ''T'', Author = [], Year = 0\<rparr>
     = Some ''author is required'' \<and>
   snd (replaceBook seeded
     \<lparr>Params_id = ''nope'', QueryArgs = Map.empty,
      Body = Some \<lparr>ID = [], Title = ''T'', Author = [], Year = 0\<rparr>\<rparr>)
     = Inl (FiberError 400 ''author is required'') \<and>
   validateBookPayload \<lparr>ID = [], Title = ''T'', Author = ''A'', Year = 0\<rparr> = None \<and>
   snd (replaceBook seeded
     \<lparr>Params_id = ''nope'', QueryArgs = Map.empty,
      Body = Some \<lparr>ID = [], Title = ''T'', Author = ''A'', Year = 0\<rparr>\<rparr>)
     = Inl (FiberError 404 ''book not found'')"
proof -
  have absent: "seeded ''nope'' = None"
    by (simp add: seeded_def seedData_def)
  have invalid: "validateBookPayload \<lparr>ID = [], Title = ''T'', Author = [], Year = 0\<rparr>
     = Some ''author is required''"
    by (simp add: validateBookPayload_def)
  have valid: "validateBookPayload \<lparr>ID = [], Title = ''T'', Author = ''A'', Year = 0\<rparr> = None"
    by (simp add: validateBookPayload_def)
  show ?thesis
    using absent invalid valid
      error_precedence
        [where st = seeded
           and c = "\<lparr>Params_id = ''nope'', QueryArgs = Map.empty, Body = None\<rparr>"]
      error_precedence
        [where st = seeded
           and c = "\<lparr>Params_id = ''nope'', QueryArgs = Map.empty,
                     Body = Some \<lparr>ID = [], Title = ''T'', Author = [], Year = 0\<rparr>\<rparr>"]
      error_precedence
        [where st = seeded
           and c = "\<lparr>Params_id = ''nope'', QueryArgs = Map.empty,
                     Body = Some \<lparr>ID = [], Title = ''T'', Author = ''A'', Year = 0\<rparr>\<rparr>"]
    by simp
qed

section \<open>Errors leave the store alone\<close>

text \<open>
  C10. Whenever Create, PartialUpdate, Replace or Delete returns an error, the error
  is a 400 or a 404 and the store is the one the handler started from.
\<close>

theorem errors_leave_store:
  "(snd (createBook st c new_id) = Inl e \<longrightarrow>
      fst (createBook st c new_id) = st \<and> (\<exists>msg. e = FiberError 400 msg)) \<and>
   (snd (updateBook st c) = Inl e \<longrightarrow>
      fst (updateBook st c) = st \<and> (\<exists>msg. e = FiberError 400 msg \<or> e = FiberError 404 msg)) \<and>
   (snd (replaceBook st c) = Inl e \<longrightarrow>
      fst (replaceBook st c) = st \<and> (\<exists>msg. e = FiberError 400 msg \<or> e = FiberError 404 msg)) \<and>
   (snd (deleteBook st c) = Inl e \<longrightarrow>
      fst (deleteBook st c) = st \<and> (\<exists>msg. e = FiberError 404 msg))"
  by (auto simp: createBook_def updateBook_def updateBook_locked_def replaceBook_def deleteBook_def Let_def
      split: option.splits)

theorem errors_leave_store_witness:
  "snd (createBook seeded \<lparr>Params_id = ''nope'', QueryArgs = Map.empty, Body = None\<rparr> ''id-3'')
     = Inl (FiberError 400 ''invalid JSON body'') \<and>
   fst (createBook seeded \<lparr>Params_id = ''nope'', QueryArgs = Map.empty, Body = None\<rparr> ''id-3'')
     = seeded \<and>
   snd (updateBook seeded \<lparr>Params_id = ''nope'', QueryArgs = Map.empty, Body = None\<rparr>)
     = Inl (FiberError 404 ''book not found'') \<and>
   fst (updateBook seeded \<lparr>Params_id = ''nope'', QueryArgs = Map.empty, Body = None\<rparr>)
     = seeded \<and>
   snd (replaceBook seeded \<lparr>Params_id = ''nope'', QueryArgs = Map.empty, Body = None\<rparr>)
     = Inl (FiberError 400 ''invalid JSON body'') \<and>
   fst (replaceBook seeded \<lparr>Params_id = ''nope'', QueryArgs = Map.empty, Body = None\<rparr>)
     = seeded \<and>
   snd (deleteBook seeded \<lparr>Params_id = ''nope'', QueryArgs = Map.empty, Body = None\<rparr>)
     = Inl (FiberError 404 ''book not found'') \<and>
   fst (deleteBook seeded \<lparr>Params_id = ''nope'', QueryArgs = Map.empty, Body = None\<rparr>)
     = seeded"
proof -
  have absent: "seeded ''nope'' = None"
    by (simp add: seeded_def seedData_def)
  have errs:
    "snd (createBook seeded \<lparr>Params_id = ''nope'', QueryArgs = Map.empty, Body = None\<rparr> ''id-3'')
       = Inl (FiberError 400 ''invalid JSON body'')"
    "snd (updateBook seeded \<lparr>Params_id = ''nope'', QueryArgs = Map.empty, Body = None\<rparr>)
       = Inl (FiberError 404 ''book not found'')"
    "snd (replaceBook seeded \<lparr>Params_id = ''nope'', QueryArgs = Map.empty, Body = None\<rparr>)
       = Inl (FiberError 400 ''invalid JSON body'')"
    "snd (deleteBook seeded \<lparr>Params_id = ''nope'', QueryArgs = Map.empty, Body = None\<rparr>)
       = Inl (FiberError 404 ''book not found'')"
    using absent
    by (simp_all add: createBook_def updateBook_def updateBook_locked_def replaceBook_def deleteBook_def Let_def)
  show ?thesis
    using errs
      errors_leave_store
        [where st = seeded and new_id = "''id-3''" and e = "FiberError 400 ''invalid JSON body''"
           and c = "\<lparr>Params_id = ''nope'', QueryArgs = Map.empty, Body = None\<rparr>"]
      errors_leave_store
        [where st = seeded and new_id = "''id-3''" and e = "FiberError 404 ''book not found''"
           and c = "\<lparr>Params_id = ''nope'', QueryArgs = Map.empty, Body = None\<rparr>"]
    by simp
qed

end
